theory Spec2Isabelle
  imports Complex_Main
begin

section \<open>Conventions\<close>

text \<open>
  Python floats are modelled as exact reals: every result below is about the arithmetic
  the source writes down, not about binary rounding. \<open>float("inf")\<close> is the value
  \<open>None\<close> of a \<open>real option\<close>. An exception of the source is a constructor of a
  result datatype, so that every raise is a branch of the model.
\<close>

datatype py_error = ZeroDivisionError | AttributeError | TypeError | KeyError

text \<open>
  A market order handed to the exchange: a buy of a quantity of a symbol for a strategy,
  or a sell of a quantity of a symbol.
\<close>

datatype order = Buy string string real | Sell string real

section \<open>modules/portfolio.py: PortfolioManager\<close>

text \<open>
  A stored position is a Python dict (field \<open>pos_x\<close> is its key \<open>x\<close>). The keys
  \<open>strategy\<close>, \<open>status\<close> and \<open>entry_ts\<close> may be absent: the first two are read with
  \<open>.get\<close> by the portfolio, and nothing that stores a position writes the third.
\<close>

record stored_position =
  pos_symbol :: string
  pos_strategy :: "string option"
  pos_entry_price :: real
  pos_qty :: real
  pos_tp_price :: real
  pos_sl_price :: real
  pos_entry_ts :: "real option"
  pos_status :: "string option"

record ledger_event =
  ts :: real
  event :: string
  details :: string

text \<open>
  \<open>self.state\<close>: positions (pid to dict), balances (strategy to balance) and the ledger.
  \<open>pnl_text\<close> stands for the formatted \<open>f"pid={pid} closed pnl={pnl:.2f}"\<close>; the clock
  read by \<open>ledger\<close> is the argument \<open>now\<close>.
\<close>

record portfolio_state =
  state_positions :: "string \<rightharpoonup> stored_position"
  state_balances :: "string \<rightharpoonup> real"
  state_ledger :: "ledger_event list"

definition init_state :: portfolio_state where
  "init_state = \<lparr>state_positions = Map.empty, state_balances = Map.empty, state_ledger = []\<rparr>"

definition update_balance :: "real \<Rightarrow> portfolio_state \<Rightarrow> real \<Rightarrow> string \<Rightarrow> portfolio_state" where
  "update_balance initial_balance st pnl strat =
     (let bal = (case state_balances st strat of None \<Rightarrow> initial_balance / 2 | Some b \<Rightarrow> b);
          new_bal = bal + pnl
      in st\<lparr>state_balances := (state_balances st)(strat \<mapsto> new_bal)\<rparr>)"

definition get_balance :: "portfolio_state \<Rightarrow> string \<Rightarrow> real" where
  "get_balance st strat = (case state_balances st strat of None \<Rightarrow> 0 | Some b \<Rightarrow> b)"

definition ledger_append :: "portfolio_state \<Rightarrow> real \<Rightarrow> string \<Rightarrow> string \<Rightarrow> portfolio_state" where
  "ledger_append st now ev det =
     st\<lparr>state_ledger := state_ledger st @ [\<lparr>ts = now, event = ev, details = det\<rparr>]\<rparr>"

definition close_position ::
  "real \<Rightarrow> portfolio_state \<Rightarrow> real \<Rightarrow> string \<Rightarrow> real \<Rightarrow> string \<Rightarrow> portfolio_state" where
  "close_position initial_balance st now pid pnl pnl_text =
     (case state_positions st pid of
        None \<Rightarrow> st
      | Some p \<Rightarrow>
          (let st1 = st\<lparr>state_positions := (state_positions st)(pid \<mapsto> p\<lparr>pos_status := Some ''closed''\<rparr>)\<rparr>;
               strat = (case pos_strategy p of None \<Rightarrow> ''default'' | Some s \<Rightarrow> s);
               st2 = update_balance initial_balance st1 pnl strat
           in ledger_append st2 now ''exit'' pnl_text))"

definition get_open_positions :: "portfolio_state \<Rightarrow> (string \<rightharpoonup> stored_position)" where
  "get_open_positions st =
     (\<lambda>pid. case state_positions st pid of
               None \<Rightarrow> None
             | Some p \<Rightarrow> if pos_status p \<noteq> Some ''closed'' then Some p else None)"

section \<open>risk.py: RiskManager\<close>

text \<open>
  The attributes \<open>__init__\<close> derives from the configuration (percentages already divided
  by 100); \<open>risk_x\<close> is the attribute \<open>x\<close> of the RiskManager.
\<close>

record risk_cfg =
  per_trade_alloc_pct :: real
  per_trade_risk_pct :: real
  risk_take_profit_pct :: real
  risk_stop_loss_pct :: real
  risk_taker_fee_pct :: real
  max_daily_drawdown_pct :: real

text \<open>\<open>float(f"{qty:.8f}")\<close>: the nearest multiple of \<open>1e-8\<close>, ties to even.\<close>

definition fmt8 :: "real \<Rightarrow> real" where
  "fmt8 x =
     (let y = x * 10 ^ 8; f = \<lfloor>y\<rfloor>; d = y - of_int f
      in of_int (if d < 1 / 2 then f else if 1 / 2 < d then f + 1
                 else if even f then f else f + 1) / 10 ^ 8)"

text \<open>
  \<open>_round_qty\<close>. The exchange's \<open>round_qty\<close> is the parameter \<open>rounder\<close>: \<open>None\<close>
  when the attribute is missing or not callable, and a call that answers \<open>None\<close> has
  raised. An empty symbol is falsy.
\<close>

definition round_qty ::
  "(string \<Rightarrow> real \<Rightarrow> real option) option \<Rightarrow> string option \<Rightarrow> real \<Rightarrow> real" where
  "round_qty rounder symb q =
     (if q \<le> 0 then 0
      else case (rounder, symb) of
             (Some r, Some s) \<Rightarrow>
               (if s \<noteq> [] then (case r s q of Some v \<Rightarrow> v | None \<Rightarrow> q)
                else (let q8 = fmt8 q in if q8 < 1 / 10 ^ 8 then 0 else q8))
           | _ \<Rightarrow> (let q8 = fmt8 q in if q8 < 1 / 10 ^ 8 then 0 else q8))"

definition compute_sl_tp_prices :: "risk_cfg \<Rightarrow> real \<Rightarrow> real \<times> real" where
  "compute_sl_tp_prices cfg entry =
     (let tp = entry * (1 + risk_take_profit_pct cfg);
          sl = entry * (1 - risk_stop_loss_pct cfg)
      in (sl, tp))"

text \<open>\<open>min(qty_risk, qty_cap)\<close> where the first argument may be \<open>float("inf")\<close>.\<close>

definition min_inf :: "real option \<Rightarrow> real \<Rightarrow> real" where
  "min_inf a b = (case a of None \<Rightarrow> b | Some x \<Rightarrow> min x b)"

definition compute_position_size_by_risk ::
  "risk_cfg \<Rightarrow> portfolio_state \<Rightarrow> (string \<Rightarrow> real \<Rightarrow> real option) option \<Rightarrow>
   string \<Rightarrow> real \<Rightarrow> real \<Rightarrow> string option \<Rightarrow> real option \<Rightarrow> real" where
  "compute_position_size_by_risk cfg pf rounder strat entry stop symb balance_override =
     (let balance = (case balance_override of Some b \<Rightarrow> b | None \<Rightarrow> get_balance pf strat)
      in if balance \<le> 0 \<or> entry \<le> 0 then 0
         else
           (let risk_amount = max 0 (balance * per_trade_risk_pct cfg);
                risk_per_unit = \<bar>entry - stop\<bar>;
                qty_risk = (if risk_per_unit \<le> 0 then None
                            else Some (risk_amount / risk_per_unit));
                alloc_usdt = max 0 (balance * per_trade_alloc_pct cfg);
                qty_cap = alloc_usdt / entry;
                q = max 0 (min_inf qty_risk qty_cap)
            in round_qty rounder symb q))"

text \<open>
  The daily guard. \<open>equity\<close> is \<open>None\<close> when the portfolio has no callable
  \<open>get_total_equity\<close> or the call raises; \<open>now\<close> is the clock (both of the call's
  reads of it), in seconds since the epoch, and the UTC calendar day of a timestamp is
  its number of whole days.
\<close>

text \<open>
  How the guard reads the equity: \<open>get_eq\<close> is
  \<open>getattr(self.portfolio, "get_total_equity", None)\<close>, \<open>None\<close> when the portfolio has
  no such callable, and a call that answers \<open>None\<close> has raised.
  \<open>PortfolioManager\<close> defines no \<open>get_total_equity\<close>.
\<close>

definition read_equity ::
  "(portfolio_state \<Rightarrow> real option) option \<Rightarrow> portfolio_state \<Rightarrow> real option" where
  "read_equity get_eq pf = (case get_eq of None \<Rightarrow> None | Some f \<Rightarrow> f pf)"

definition portfolio_get_total_equity :: "(portfolio_state \<Rightarrow> real option) option" where
  "portfolio_get_total_equity = None"

record guard_state =
  day_anchor_ts :: real
  day_start_equity :: "real option"

definition day_key :: "real \<Rightarrow> int" where
  "day_key t = \<lfloor>t / 86400\<rfloor>"

definition check_daily_loss_guard ::
  "risk_cfg \<Rightarrow> guard_state \<Rightarrow> real option \<Rightarrow> real \<Rightarrow> bool \<times> guard_state" where
  "check_daily_loss_guard cfg g equity now =
     (if max_daily_drawdown_pct cfg \<le> 0 then (True, g)
      else case equity of
             None \<Rightarrow> (True, g)
           | Some e \<Rightarrow>
               (let g1 = (if day_anchor_ts g \<noteq> 0 \<and> day_key (day_anchor_ts g) \<noteq> day_key now
                          then g\<lparr>day_start_equity := None, day_anchor_ts := 0\<rparr> else g)
                in case day_start_equity g1 of
                     None \<Rightarrow> (True, g1\<lparr>day_start_equity := Some e, day_anchor_ts := now\<rparr>)
                   | Some a \<Rightarrow>
                       (let limit_eq = a * (1 - max_daily_drawdown_pct cfg)
                        in if e \<le> limit_eq then (False, g1) else (True, g1))))"

section \<open>modules/exit.py: ExitManager\<close>


text \<open>
  \<open>_close_position\<close>. It first sends the market sell (\<open>sell\<close> is
  \<open>_execute_or_paper_sell\<close>, answering the executed quantity and price), then formats
  the notification, which reads \<open>pos['strategy']\<close>, then builds the trade record,
  which reads \<open>pos["entry_ts"]\<close>, and ends with
  \<open>self.portfolio.close_position(pos["symbol"])\<close>: one argument for the two parameters
  \<open>pid, pnl\<close>. So every call raises, after the sell and before the portfolio is
  touched (the caller logs the exception); the result is the orders sent and the
  exception.
\<close>

definition manage_pnl :: "stored_position \<Rightarrow> real \<Rightarrow> real" where
  "manage_pnl pos price = (price - pos_entry_price pos) * pos_qty pos"

definition exit_close_position ::
  "(string \<Rightarrow> real \<Rightarrow> real \<times> real) \<Rightarrow> portfolio_state \<Rightarrow> stored_position \<Rightarrow>
   order list \<times> py_error" where
  "exit_close_position sell pf pos =
     (let (exec_qty, exec_price) = sell (pos_symbol pos) (pos_qty pos);
          sent = [Sell (pos_symbol pos) (pos_qty pos)]
      in if pos_strategy pos = None then (sent, KeyError)
         else if pos_entry_ts pos = None then (sent, KeyError)
         else (sent, TypeError))"

section \<open>strategies.py: StrategyManager.scan\_and\_trade\<close>

text \<open>
  One symbol of the scan. \<open>ops\<close> is \<open>open_positions.values()\<close>; the signals and the
  RSI and MACD filters (an external indicator library) are inputs; \<open>buy\<close> is
  \<open>_execute_or_paper_buy\<close>, answering the executed quantity and price. The result lists
  the market buys sent, and the exception that ended the symbol's block, if any:
  \<open>PortfolioManager\<close> defines no \<open>open_position\<close>, so the call after a fill raises.
\<close>

definition has_open :: "stored_position list \<Rightarrow> string \<Rightarrow> string \<Rightarrow> bool" where
  "has_open ops symb strat = (\<exists>p \<in> set ops. pos_symbol p = symb \<and> pos_strategy p = Some strat)"

definition entry_block ::
  "risk_cfg \<Rightarrow> portfolio_state \<Rightarrow> (string \<Rightarrow> real \<Rightarrow> real option) option \<Rightarrow>
   (string \<Rightarrow> real \<Rightarrow> real \<times> real) \<Rightarrow> stored_position list \<Rightarrow> string \<Rightarrow> string \<Rightarrow>
   real \<Rightarrow> bool \<Rightarrow> bool \<Rightarrow> bool \<Rightarrow> order list \<times> py_error option" where
  "entry_block cfg pf rounder buy ops symb strat price sig rsi_ok macd_ok =
     (if \<not> has_open ops symb strat \<and> sig \<and> rsi_ok \<and> macd_ok then
        (let (sl, tp) = compute_sl_tp_prices cfg price;
             q = compute_position_size_by_risk cfg pf rounder strat price sl (Some symb) None
         in if q > 0 then
              (let (exec_qty, exec_price) = buy symb q
               in if exec_qty > 0 then ([Buy symb strat q], Some AttributeError)
                  else ([Buy symb strat q], None))
            else ([], None))
      else ([], None))"

definition scan_symbol ::
  "risk_cfg \<Rightarrow> portfolio_state \<Rightarrow> (string \<Rightarrow> real \<Rightarrow> real option) option \<Rightarrow>
   (string \<Rightarrow> real \<Rightarrow> real \<times> real) \<Rightarrow> stored_position list \<Rightarrow> string \<Rightarrow>
   real \<Rightarrow> bool \<Rightarrow> bool \<Rightarrow> bool \<Rightarrow> bool \<Rightarrow> order list \<times> py_error option" where
  "scan_symbol cfg pf rounder buy ops symb price sig_mom sig_cross rsi_ok macd_ok =
     (case entry_block cfg pf rounder buy ops symb ''momentum'' price sig_mom rsi_ok macd_ok of
        (os, Some e) \<Rightarrow> (os, Some e)
      | (os, None) \<Rightarrow>
          (case entry_block cfg pf rounder buy ops symb ''ma'' price sig_cross rsi_ok macd_ok of
             (os', r) \<Rightarrow> (os @ os', r)))"

text \<open>
  Successive scans of one symbol. No scan changes the portfolio (the only write,
  \<open>open_position\<close>, raises), so every scan sees the same state and the same open
  positions; an observation is the price, the two signals and the two filters.
\<close>

definition scan_ticks ::
  "risk_cfg \<Rightarrow> portfolio_state \<Rightarrow> (string \<Rightarrow> real \<Rightarrow> real option) option \<Rightarrow>
   (string \<Rightarrow> real \<Rightarrow> real \<times> real) \<Rightarrow> stored_position list \<Rightarrow> string \<Rightarrow>
   (real \<times> bool \<times> bool \<times> bool \<times> bool) list \<Rightarrow> (order list \<times> py_error option) list" where
  "scan_ticks cfg pf rounder buy ops symb obs =
     map (\<lambda>(price, sig_mom, sig_cross, rsi_ok, macd_ok).
            scan_symbol cfg pf rounder buy ops symb price sig_mom sig_cross rsi_ok macd_ok) obs"

text \<open>
  The live driver's polls of one symbol, with the store. \<open>pids\<close> are the keys of the
  store's positions; a poll reads the open positions from the store, scans the symbol,
  and leaves the store as it was: the fill is to be recorded by \<open>open_position\<close>, which
  raises. The orders sent accumulate.
\<close>

definition open_values :: "portfolio_state \<Rightarrow> string list \<Rightarrow> stored_position list" where
  "open_values pf pids = List.map_filter (get_open_positions pf) pids"

definition live_poll ::
  "risk_cfg \<Rightarrow> (string \<Rightarrow> real \<Rightarrow> real option) option \<Rightarrow>
   (string \<Rightarrow> real \<Rightarrow> real \<times> real) \<Rightarrow> string list \<Rightarrow> string \<Rightarrow>
   portfolio_state \<times> order list \<Rightarrow> (real \<times> bool \<times> bool \<times> bool \<times> bool) \<Rightarrow>
   portfolio_state \<times> order list" where
  "live_poll cfg rounder buy pids symb acc ob =
     (let (pf, sent) = acc;
          (price, sig_mom, sig_cross, rsi_ok, macd_ok) = ob;
          ops = open_values pf pids;
          (os, err) = scan_symbol cfg pf rounder buy ops symb price sig_mom sig_cross
                        rsi_ok macd_ok
      in (pf, sent @ os))"

section \<open>backtest.py: Backtester\<close>

text \<open>
  The two strategies are the keys of the dict literals \<open>balances\<close>, \<open>trades_count\<close> and
  \<open>strategy_weights\<close>; every strategy name the run handles is one of them.
\<close>

datatype strat = Momentum | MA

record bar =
  high :: real
  low :: real
  close :: real

text \<open>
  The attributes of the Backtester (percentages already divided by 100);
  \<open>weight_momentum\<close> and \<open>weight_ma\<close> are the configured weights before
  \<open>__init__\<close> normalises them, \<open>entry_lookback_min\<close> and \<open>entry_change_pct\<close> the
  values the momentum signal reads from \<open>cfg["trade"]\<close>.
\<close>

record backtester =
  initial_balance :: real
  weight_momentum :: real
  weight_ma :: real
  per_trade_pct :: real
  take_profit_pct :: real
  stop_loss_pct :: real
  trailing_stop_pct :: real
  taker_fee_pct :: real
  slippage_pct :: real
  min_atr_pct :: real
  entry_cooldown_bars :: int
  entry_lookback_min :: nat
  entry_change_pct :: real

definition strategy_weights :: "backtester \<Rightarrow> strat \<Rightarrow> real" where
  "strategy_weights cfg s =
     (let sw = weight_momentum cfg + weight_ma cfg;
          sw_sum = (if sw = 0 then 1 else sw)
      in (case s of Momentum \<Rightarrow> weight_momentum cfg | MA \<Rightarrow> weight_ma cfg) / sw_sum)"

record bt_position =
  strategy :: strat
  entry_price :: real
  qty :: real
  entry_index :: int
  tp_price :: real
  sl_price :: real
  highest :: real
  entry_fee :: real

record bt_state =
  balances :: "strat \<Rightarrow> real"
  open_positions :: "bt_position list"
  last_entry_bar :: "strat \<rightharpoonup> int"
  equity_curve :: "real list"
  trades_count :: "strat \<Rightarrow> nat"

subsection \<open>Signals and the volatility gate\<close>

text \<open>The slice \<open>xs[-n:]\<close>: the last \<open>n\<close> elements, and all of them when \<open>n = 0\<close>.\<close>

definition last_n :: "nat \<Rightarrow> 'a list \<Rightarrow> 'a list" where
  "last_n n xs = (if n = 0 then xs else drop (length xs - n) xs)"

definition mean :: "real list \<Rightarrow> real" where
  "mean xs = sum_list xs / real (length xs)"

fun true_ranges :: "bar list \<Rightarrow> real list" where
  "true_ranges (b0 # b1 # bs) =
     max (high b1 - low b1) (max \<bar>high b1 - close b0\<bar> \<bar>low b1 - close b0\<bar>)
       # true_ranges (b1 # bs)"
| "true_ranges bs = []"

text \<open>
  \<open>_atr_pct\<close> is called with \<open>lookback = 14\<close> only; a window that passes the length
  test then has at least fourteen true ranges, so the mean is never taken of an empty
  array.
\<close>

definition atr_pct :: "bar list \<Rightarrow> nat \<Rightarrow> real option" where
  "atr_pct df lookback =
     (if length df < lookback + 1 then None
      else (let atr = mean (last_n lookback (true_ranges df));
                lst = close (last df)
            in if lst \<le> 0 then None else Some (atr / lst)))"

definition sig_momentum :: "bar list \<Rightarrow> nat \<Rightarrow> real \<Rightarrow> bool" where
  "sig_momentum df lookback_min change_pct =
     (if length df < lookback_min + 1 then False
      else (let start = close (df ! (length df - (lookback_min + 1)));
                lst = close (last df)
            in if start \<le> 0 then False
               else (lst - start) / start * 100 \<ge> change_pct))"

definition sig_ma :: "bar list \<Rightarrow> nat \<Rightarrow> nat \<Rightarrow> bool" where
  "sig_ma df s l =
     (if length df < l then False
      else mean (map close (last_n s df)) > mean (map close (last_n l df)))"

subsection \<open>The exit phase\<close>

definition exit_reason :: "backtester \<Rightarrow> bt_position \<Rightarrow> real \<Rightarrow> (string \<times> real) option" where
  "exit_reason cfg pos px =
     (let trail = highest pos * (1 - trailing_stop_pct cfg)
      in if px \<ge> tp_price pos then Some (''TP'', px)
         else if px \<le> sl_price pos then Some (''SL'', px)
         else if px \<le> trail then Some (''TRAIL'', px)
         else None)"

text \<open>The credit to the strategy's balance and the realised pnl of a close at \<open>ex_px\<close>.\<close>

definition settle :: "backtester \<Rightarrow> bt_position \<Rightarrow> real \<Rightarrow> real \<times> real" where
  "settle cfg pos ex_px =
     (let proceeds = ex_px * qty pos;
          fee_exit = proceeds * taker_fee_pct cfg;
          pnl = (proceeds - fee_exit) - (entry_price pos * qty pos + entry_fee pos)
      in (proceeds - fee_exit, pnl))"

definition exit_one ::
  "backtester \<Rightarrow> real \<Rightarrow> (strat \<Rightarrow> real) \<times> bt_position list \<Rightarrow> bt_position \<Rightarrow>
   (strat \<Rightarrow> real) \<times> bt_position list" where
  "exit_one cfg px acc pos0 =
     (let (bals, keep) = acc;
          pos = pos0\<lparr>highest := max (highest pos0) px\<rparr>
      in case exit_reason cfg pos px of
           Some (reason, ex_px) \<Rightarrow>
             (bals((strategy pos) := bals (strategy pos) + fst (settle cfg pos ex_px)), keep)
         | None \<Rightarrow> (bals, keep @ [pos]))"

definition exit_phase ::
  "backtester \<Rightarrow> real \<Rightarrow> (strat \<Rightarrow> real) \<Rightarrow> bt_position list \<Rightarrow> (strat \<Rightarrow> real) \<times> bt_position list" where
  "exit_phase cfg px bals ps = foldl (exit_one cfg px) (bals, []) ps"

subsection \<open>The entry phase\<close>

definition can_enter :: "backtester \<Rightarrow> bt_state \<Rightarrow> int \<Rightarrow> strat \<Rightarrow> bool" where
  "can_enter cfg st i s =
     (let last_i = (case last_entry_bar st s of None \<Rightarrow> - (10 ^ 9) | Some l \<Rightarrow> l)
      in i - last_i \<ge> entry_cooldown_bars cfg
         \<and> \<not> (\<exists>p \<in> set (open_positions st). strategy p = s))"

text \<open>
  \<open>do_enter\<close> returns True after entering, returns False when it refuses, and raises
  when a float division has a zero divisor; the caller discards both of the latter.
\<close>

datatype enter_result = Entered bt_state | Refused | Raised py_error

definition do_enter :: "backtester \<Rightarrow> bt_state \<Rightarrow> real \<Rightarrow> int \<Rightarrow> strat \<Rightarrow> enter_result" where
  "do_enter cfg st px i s =
     (let alloc_pool = balances st s;
          alloc = alloc_pool * per_trade_pct cfg
      in if alloc \<le> 0 then Refused
         else
           (let entry = px * (1 + slippage_pct cfg)
            in if entry = 0 then Raised ZeroDivisionError
               else
                 (let qty0 = alloc / entry;
                      fee0 = entry * qty0 * taker_fee_pct cfg;
                      need0 = entry * qty0 + fee0
                  in if need0 > balances st s \<and> entry * (1 + taker_fee_pct cfg) = 0
                     then Raised ZeroDivisionError
                     else
                       (let q = (if need0 > balances st s
                                 then balances st s / (entry * (1 + taker_fee_pct cfg))
                                 else qty0);
                            fee_e = entry * q * taker_fee_pct cfg;
                            need = entry * q + fee_e
                        in if q \<le> 0 \<or> need > balances st s then Refused
                           else
                             (let tp = entry * (1 + take_profit_pct cfg);
                                  sl = entry * (1 - stop_loss_pct cfg)
                              in Entered
                                   (st\<lparr>balances := (balances st)(s := balances st s - need),
                                       open_positions := open_positions st @
                                         [\<lparr>strategy = s, entry_price = entry, qty = q,
                                           entry_index = i, tp_price = tp, sl_price = sl,
                                           highest = entry, entry_fee = fee_e\<rparr>],
                                       last_entry_bar := (last_entry_bar st)(s \<mapsto> i),
                                       trades_count :=
                                         (trades_count st)(s := trades_count st s + 1)\<rparr>))))))"

definition try_enter :: "backtester \<Rightarrow> bt_state \<Rightarrow> real \<Rightarrow> int \<Rightarrow> strat \<Rightarrow> bool \<Rightarrow> bt_state" where
  "try_enter cfg st px i s sig =
     (if can_enter cfg st i s \<and> sig
      then (case do_enter cfg st px i s of Entered st' \<Rightarrow> st' | Refused \<Rightarrow> st | Raised e \<Rightarrow> st)
      else st)"

subsection \<open>One bar, the run and the forced exit\<close>

definition bar_step :: "backtester \<Rightarrow> bar list \<Rightarrow> bt_state \<Rightarrow> nat \<Rightarrow> bt_state" where
  "bar_step cfg df st i =
     (let win = take (i + 1) df;
          px = close (last win);
          (bals, keep) = exit_phase cfg px (balances st) (open_positions st);
          total_cash = bals Momentum + bals MA;
          mkt_value = sum_list (map (\<lambda>p. qty p * px) keep);
          st1 = st\<lparr>balances := bals, open_positions := keep,
                   equity_curve := equity_curve st @ [total_cash + mkt_value]\<rparr>
      in case atr_pct win 14 of
           None \<Rightarrow> st1
         | Some atrp \<Rightarrow>
             if atrp < min_atr_pct cfg then st1
             else
               (let st2 = try_enter cfg st1 px (int i) Momentum
                            (sig_momentum win (entry_lookback_min cfg) (entry_change_pct cfg))
                in try_enter cfg st2 px (int i) MA (sig_ma win 9 21)))"

definition init_bt :: "backtester \<Rightarrow> bt_state" where
  "init_bt cfg =
     \<lparr>balances = (\<lambda>s. initial_balance cfg * strategy_weights cfg s),
      open_positions = [], last_entry_bar = Map.empty, equity_curve = [],
      trades_count = (\<lambda>s. 0)\<rparr>"

text \<open>The state after the first \<open>k\<close> bars of the loop \<open>for i in range(len(df))\<close>.\<close>

definition run_bars :: "backtester \<Rightarrow> bar list \<Rightarrow> nat \<Rightarrow> bt_state" where
  "run_bars cfg df k = foldl (bar_step cfg df) (init_bt cfg) [0..<k]"

definition force_exit ::
  "backtester \<Rightarrow> real \<Rightarrow> (strat \<Rightarrow> real) \<Rightarrow> bt_position list \<Rightarrow> (strat \<Rightarrow> real)" where
  "force_exit cfg last_px bals ps =
     foldl (\<lambda>b pos. let ex_px = last_px * (1 - slippage_pct cfg)
                     in b((strategy pos) := b (strategy pos) + fst (settle cfg pos ex_px)))
           bals ps"

record summary =
  sum_initial_balance :: real
  final_balance :: real
  total_pnl :: real
  trades :: "strat \<Rightarrow> nat"

text \<open>
  \<open>run_backtest\<close> on the fetched bars: \<open>None\<close> is the early \<open>return {}\<close> on no data.
  The drawdown figure of the summary is left out.
\<close>

definition run_backtest :: "backtester \<Rightarrow> bar list \<Rightarrow> (summary \<times> real list) option" where
  "run_backtest cfg df =
     (if df = [] then None
      else
        (let st = run_bars cfg df (length df);
             last_px = close (last df);
             bals = force_exit cfg last_px (balances st) (open_positions st);
             final_total = bals Momentum + bals MA
         in Some (\<lparr>sum_initial_balance = initial_balance cfg, final_balance = final_total,
                    total_pnl = final_total - initial_balance cfg, trades = trades_count st\<rparr>,
                  equity_curve st)))"

section \<open>Auxiliary notions for the proofs\<close>

text \<open>
  What the exit loop does to one position: it raises \<open>highest\<close> to the bar's close, and
  the position stays open when none of the three checks fires.
\<close>

definition upd_highest :: "real \<Rightarrow> bt_position \<Rightarrow> bt_position" where
  "upd_highest px p = p\<lparr>highest := max (highest p) px\<rparr>"

definition stays :: "backtester \<Rightarrow> real \<Rightarrow> bt_position \<Rightarrow> bool" where
  "stays cfg px p = (exit_reason cfg (upd_highest px p) px = None)"

text \<open>The state of a bar after its exits and its equity snapshot, before its entries.\<close>

definition after_exit :: "backtester \<Rightarrow> real \<Rightarrow> bt_state \<Rightarrow> bt_state" where
  "after_exit cfg px st =
     (let r = exit_phase cfg px (balances st) (open_positions st)
      in st\<lparr>balances := fst r, open_positions := snd r,
             equity_curve := equity_curve st @
               [fst r Momentum + fst r MA + sum_list (map (\<lambda>p. qty p * px) (snd r))]\<rparr>)"

text \<open>The close of bar \<open>i\<close>, as the loop reads it from the window.\<close>

definition bar_px :: "bar list \<Rightarrow> nat \<Rightarrow> real" where
  "bar_px df i = close (last (take (i + 1) df))"

definition bt_inv :: "bt_state \<Rightarrow> bool" where
  "bt_inv st = ((\<forall>s. 0 \<le> balances st s) \<and> (\<forall>p \<in> set (open_positions st). 0 < qty p))"

section \<open>Concrete inputs\<close>

text \<open>
  A RiskManager that allocates the whole balance to a trade (\<open>per_trade_pct: 100\<close>), with
  a 1 percent stop and the default risk budget and taker fee; and one with the default
  allocation and a 5 percent daily drawdown limit.
\<close>

definition risk_cfg_full :: risk_cfg where
  "risk_cfg_full = \<lparr>per_trade_alloc_pct = 1, per_trade_risk_pct = 1 / 100,
     risk_take_profit_pct = 5 / 100, risk_stop_loss_pct = 1 / 100,
     risk_taker_fee_pct = 4 / 10000, max_daily_drawdown_pct = 0\<rparr>"

definition risk_cfg_dd :: risk_cfg where
  "risk_cfg_dd = \<lparr>per_trade_alloc_pct = 1 / 10, per_trade_risk_pct = 1 / 100,
     risk_take_profit_pct = 5 / 100, risk_stop_loss_pct = 2 / 100,
     risk_taker_fee_pct = 4 / 10000, max_daily_drawdown_pct = 5 / 100\<rparr>"

text \<open>
  A Backtester with the default settings and a momentum lookback of one bar, and sixteen
  bars: fourteen flat at 100, then 104 and 110. \<open>bars15\<close> is the run that stops after
  the bar at 104.
\<close>

definition bt_cfg_default :: backtester where
  "bt_cfg_default =
     \<lparr>initial_balance = 1000, weight_momentum = 1 / 2, weight_ma = 1 / 2,
      per_trade_pct = 1 / 10, take_profit_pct = 5 / 100, stop_loss_pct = 2 / 100,
      trailing_stop_pct = 1 / 100, taker_fee_pct = 4 / 10000, slippage_pct = 5 / 10000,
      min_atr_pct = 5 / 10000, entry_cooldown_bars = 10, entry_lookback_min = 1,
      entry_change_pct = 3\<rparr>"

definition mk_bar :: "real \<Rightarrow> bar" where
  "mk_bar c = \<lparr>high = c + 1, low = c - 1, close = c\<rparr>"

definition bars16 :: "bar list" where
  "bars16 = map mk_bar
     [100, 100, 100, 100, 100, 100, 100, 100, 100, 100, 100, 100, 100, 100, 104, 110]"

definition bars15 :: "bar list" where
  "bars15 = map mk_bar
     [100, 100, 100, 100, 100, 100, 100, 100, 100, 100, 100, 100, 100, 100, 104]"

text \<open>An open backtest position: one unit bought at 100, target 105, stop 98.\<close>

definition bt_pos_100 :: bt_position where
  "bt_pos_100 = \<lparr>strategy = Momentum, entry_price = 100, qty = 1, entry_index = 0,
     tp_price = 105, sl_price = 98, highest = 100, entry_fee = 4 / 100\<rparr>"

text \<open>A stored live position in BTCUSDT, and a portfolio state that holds it as pid 1.\<close>

definition live_pos :: stored_position where
  "live_pos = \<lparr>pos_symbol = ''BTCUSDT'', pos_strategy = Some ''momentum'',
     pos_entry_price = 100, pos_qty = 1, pos_tp_price = 120, pos_sl_price = 98,
     pos_entry_ts = Some 0, pos_status = Some ''open''\<rparr>"

definition pf_one :: portfolio_state where
  "pf_one = \<lparr>state_positions = [''1'' \<mapsto> live_pos],
     state_balances = [''momentum'' \<mapsto> 1000], state_ledger = []\<rparr>"

text \<open>
  A portfolio state with 1000 in the momentum account and no position, an exchange whose
  \<open>round_qty\<close> has no step filter, a paper buy filled at 100 and a paper sell filled at
  108.
\<close>

definition pf_cash :: portfolio_state where
  "pf_cash = \<lparr>state_positions = Map.empty, state_balances = [''momentum'' \<mapsto> 1000],
     state_ledger = []\<rparr>"

definition no_step :: "string \<Rightarrow> real \<Rightarrow> real option" where
  "no_step s q = Some q"

definition paper_buy :: "string \<Rightarrow> real \<Rightarrow> real \<times> real" where
  "paper_buy s q = (q, 100)"

definition paper_sell :: "string \<Rightarrow> real \<Rightarrow> real \<times> real" where
  "paper_sell s q = (q, 108)"

section \<open>RiskManager: sizing and the daily guard\<close>

text \<open>
  C1. Position sizing never returns a quantity whose cost with the fee,
  \<open>qty * entry_price * (1 + fee_pct)\<close>, exceeds the balance. The live sizing has no such
  check: with the whole balance allocated, a balance of 1000, an entry at 100 and a stop
  at 99, it returns 10 units, which cost 1000.4 with the taker fee.
\<close>

theorem live_sizing_exceeds_balance:
  "compute_position_size_by_risk risk_cfg_full init_state None ''momentum'' 100 99 None
     (Some 1000) = 10
   \<and> \<not> (10 * 100 * (1 + risk_taker_fee_pct risk_cfg_full) \<le> (1000::real))"
  by (simp add: compute_position_size_by_risk_def risk_cfg_full_def min_inf_def
      round_qty_def fmt8_def Let_def)

text \<open>
  With the repository's PortfolioManager the guard cannot read the equity: the first
  check of a day records no anchor, and a check on an anchored day passes whatever the
  equity is.
\<close>

theorem daily_guard_unreadable_equity:
  "check_daily_loss_guard risk_cfg_dd \<lparr>day_anchor_ts = 0, day_start_equity = None\<rparr>
     (read_equity portfolio_get_total_equity pf_cash) 100
     = (True, \<lparr>day_anchor_ts = 0, day_start_equity = None\<rparr>)
   \<and> check_daily_loss_guard risk_cfg_dd \<lparr>day_anchor_ts = 100, day_start_equity = Some 1000\<rparr>
       (read_equity portfolio_get_total_equity pf_cash) 200
       = (True, \<lparr>day_anchor_ts = 100, day_start_equity = Some 1000\<rparr>)"
  by (simp add: check_daily_loss_guard_def read_equity_def portfolio_get_total_equity_def
      risk_cfg_dd_def)

text \<open>
  C10 (as amended). The daily loss guard passes, and changes nothing, whenever the
  drawdown limit is not positive and whenever the equity cannot be read (the portfolio
  has no callable \<open>get_total_equity\<close>, as the repository's PortfolioManager, or the call
  raises). With a positive limit and a readable equity, the first check of a day (no
  anchor yet, or an anchor of another UTC day) records the equity and the time and
  passes; a check on the anchor's day halts exactly when the equity is at most the
  limit computed as \<open>anchor * (1 - limit_pct)\<close>, so an equity equal to the computed limit
  halts.
\<close>

theorem daily_guard:
  "(max_daily_drawdown_pct cfg \<le> 0 \<longrightarrow> check_daily_loss_guard cfg g equity now = (True, g))
   \<and> check_daily_loss_guard cfg g None now = (True, g)
   \<and> check_daily_loss_guard cfg g (read_equity portfolio_get_total_equity pf) now = (True, g)
   \<and> (0 < max_daily_drawdown_pct cfg \<and>
        (day_start_equity g = None \<or>
         (day_anchor_ts g \<noteq> 0 \<and> day_key (day_anchor_ts g) \<noteq> day_key now)) \<longrightarrow>
        check_daily_loss_guard cfg g (Some e) now
          = (True, \<lparr>day_anchor_ts = now, day_start_equity = Some e\<rparr>))
   \<and> (0 < max_daily_drawdown_pct cfg \<and> day_start_equity g = Some a \<and>
        day_key (day_anchor_ts g) = day_key now \<longrightarrow>
        check_daily_loss_guard cfg g (Some e) now
          = (\<not> e \<le> a * (1 - max_daily_drawdown_pct cfg), g))"
  by (cases g)
    (auto simp: check_daily_loss_guard_def read_equity_def portfolio_get_total_equity_def
      Let_def split: option.splits)

theorem daily_guard_witness:
  "check_daily_loss_guard risk_cfg_full \<lparr>day_anchor_ts = 100, day_start_equity = Some 1000\<rparr>
     (Some 1) 200 = (True, \<lparr>day_anchor_ts = 100, day_start_equity = Some 1000\<rparr>)
   \<and> check_daily_loss_guard risk_cfg_dd \<lparr>day_anchor_ts = 100, day_start_equity = Some 1000\<rparr>
       None 200 = (True, \<lparr>day_anchor_ts = 100, day_start_equity = Some 1000\<rparr>)
   \<and> check_daily_loss_guard risk_cfg_dd \<lparr>day_anchor_ts = 0, day_start_equity = None\<rparr>
       (Some 1000) 100 = (True, \<lparr>day_anchor_ts = 100, day_start_equity = Some 1000\<rparr>)
   \<and> check_daily_loss_guard risk_cfg_dd \<lparr>day_anchor_ts = 100, day_start_equity = Some 1000\<rparr>
       (Some 900) 90000 = (True, \<lparr>day_anchor_ts = 90000, day_start_equity = Some 900\<rparr>)
   \<and> check_daily_loss_guard risk_cfg_dd \<lparr>day_anchor_ts = 100, day_start_equity = Some 1000\<rparr>
       (Some 950) 200 = (False, \<lparr>day_anchor_ts = 100, day_start_equity = Some 1000\<rparr>)
   \<and> check_daily_loss_guard risk_cfg_dd \<lparr>day_anchor_ts = 100, day_start_equity = Some 1000\<rparr>
       (Some 951) 200 = (True, \<lparr>day_anchor_ts = 100, day_start_equity = Some 1000\<rparr>)"
  using
    daily_guard [where cfg = risk_cfg_full and equity = "Some 1" and now = 200
      and g = "\<lparr>day_anchor_ts = 100, day_start_equity = Some 1000\<rparr>"]
    daily_guard [where cfg = risk_cfg_dd and now = 200
      and g = "\<lparr>day_anchor_ts = 100, day_start_equity = Some 1000\<rparr>"]
    daily_guard [where cfg = risk_cfg_dd and now = 100 and e = 1000
      and g = "\<lparr>day_anchor_ts = 0, day_start_equity = None\<rparr>"]
    daily_guard [where cfg = risk_cfg_dd and now = 90000 and e = 900
      and g = "\<lparr>day_anchor_ts = 100, day_start_equity = Some 1000\<rparr>"]
    daily_guard [where cfg = risk_cfg_dd and now = 200 and e = 950 and a = 1000
      and g = "\<lparr>day_anchor_ts = 100, day_start_equity = Some 1000\<rparr>"]
    daily_guard [where cfg = risk_cfg_dd and now = 200 and e = 951 and a = 1000
      and g = "\<lparr>day_anchor_ts = 100, day_start_equity = Some 1000\<rparr>"]
  by (simp add: risk_cfg_full_def risk_cfg_dd_def day_key_def)

section \<open>PortfolioManager: accounts and closing\<close>

text \<open>
  C9. Every strategy's cash account exists from initialization and holds its weighted
  share of the starting capital, so that the first balance read returns the share and
  not zero. A fresh PortfolioManager has no account: the first \<open>get_balance\<close> returns 0,
  while \<open>update_balance\<close> on the same state starts the missing account from half of the
  initial balance.
\<close>

theorem fresh_portfolio_first_read:
  "get_balance init_state ''momentum'' = 0
   \<and> state_balances (update_balance 1000 init_state 0 ''momentum'') ''momentum'' = Some 500"
  by (simp add: get_balance_def init_state_def update_balance_def)

text \<open>
  Closing a stored position a second time credits the pnl a second time and appends a
  second exit event: \<open>close_position\<close> looks the pid up and does not read its status.
\<close>

theorem close_twice_credits_twice:
  "state_balances (close_position 1000 (close_position 1000 pf_one 1 ''1'' 50 ''a'') 2 ''1'' 50 ''b'')
     ''momentum'' = Some 1100
   \<and> state_balances (close_position 1000 pf_one 1 ''1'' 50 ''a'') ''momentum'' = Some 1050
   \<and> get_open_positions (close_position 1000 pf_one 1 ''1'' 50 ''a'') ''1'' = None
   \<and> length (state_ledger
        (close_position 1000 (close_position 1000 pf_one 1 ''1'' 50 ''a'') 2 ''1'' 50 ''b'')) = 2"
  by (simp add: close_position_def pf_one_def live_pos_def update_balance_def ledger_append_def
      get_open_positions_def Let_def)

text \<open>
  C2 (as amended). Closing a pid that is not stored changes nothing. Closing a stored
  pid, whatever its status, marks it closed, adds the pnl to its strategy's balance (a
  missing account starting from half of the initial balance) and appends one exit event;
  afterwards the pid is not among the open positions, and no close ever returns a
  position to the open positions, so a caller that closes only what
  \<open>get_open_positions\<close> lists closes each position once.
\<close>

theorem close_position_effect:
  "(state_positions st pid = None \<longrightarrow> close_position ib st now pid pnl det = st)
   \<and> (state_positions st pid = Some p \<longrightarrow>
        state_positions (close_position ib st now pid pnl det)
          = (state_positions st)(pid \<mapsto> p\<lparr>pos_status := Some ''closed''\<rparr>)
        \<and> state_balances (close_position ib st now pid pnl det)
          = (let strat = (case pos_strategy p of None \<Rightarrow> ''default'' | Some s \<Rightarrow> s)
             in (state_balances st)
                  (strat \<mapsto> (case state_balances st strat of None \<Rightarrow> ib / 2 | Some b \<Rightarrow> b) + pnl))
        \<and> state_ledger (close_position ib st now pid pnl det)
          = state_ledger st @ [\<lparr>ts = now, event = ''exit'', details = det\<rparr>]
        \<and> get_open_positions (close_position ib st now pid pnl det) pid = None)
   \<and> (get_open_positions st pid' = None \<longrightarrow>
        get_open_positions (close_position ib st now pid pnl det) pid' = None)"
  by (auto simp: close_position_def update_balance_def ledger_append_def get_open_positions_def
      Let_def split: option.splits if_splits)

theorem close_position_effect_witness:
  "close_position 1000 pf_one 1 ''2'' 50 ''a'' = pf_one
   \<and> state_balances (close_position 1000 pf_one 1 ''1'' 50 ''a'') = [''momentum'' \<mapsto> 1050]
   \<and> state_ledger (close_position 1000 pf_one 1 ''1'' 50 ''a'')
       = [\<lparr>ts = 1, event = ''exit'', details = ''a''\<rparr>]
   \<and> get_open_positions (close_position 1000 pf_one 1 ''1'' 50 ''a'') ''1'' = None
   \<and> get_open_positions (close_position 1000 pf_one 1 ''1'' 50 ''a'') ''2'' = None"
  using close_position_effect [where st = pf_one and pid = "''2''" and ib = 1000 and now = 1
          and pnl = 50 and det = "''a''" and p = live_pos and pid' = "''2''"]
        close_position_effect [where st = pf_one and pid = "''1''" and ib = 1000 and now = 1
          and pnl = 50 and det = "''a''" and p = live_pos and pid' = "''2''"]
  by (simp add: pf_one_def live_pos_def get_open_positions_def)

section \<open>Backtester: the exit phase, entries and the run\<close>

lemma exit_reason_px: "exit_reason cfg p px = Some (r, e) \<Longrightarrow> e = px"
  by (auto simp: exit_reason_def Let_def split: if_splits)

lemma exit_one_keep:
  "snd (exit_one cfg px (bals, keep) p)
     = keep @ (if stays cfg px p then [upd_highest px p] else [])"
  by (auto simp: exit_one_def stays_def upd_highest_def Let_def split: option.splits)

lemma exit_one_bals:
  "fst (exit_one cfg px (bals, keep) p)
     = (if stays cfg px p then bals
        else bals((strategy p) := bals (strategy p) + fst (settle cfg (upd_highest px p) px)))"
  by (auto simp: exit_one_def stays_def upd_highest_def Let_def split: option.splits
           dest: exit_reason_px)

lemma foldl_exit_keep:
  "snd (foldl (exit_one cfg px) (bals, keep) ps)
     = keep @ map (upd_highest px) (filter (stays cfg px) ps)"
proof (induction ps arbitrary: bals keep)
  case Nil
  then show ?case by simp
next
  case (Cons p ps)
  obtain b k where bk: "exit_one cfg px (bals, keep) p = (b, k)" by (cases "exit_one cfg px (bals, keep) p")
  have k: "k = keep @ (if stays cfg px p then [upd_highest px p] else [])"
    using exit_one_keep [of cfg px bals keep p] bk by simp
  show ?case using Cons.IH [of b k] bk k by simp
qed

lemma exit_phase_keep:
  "snd (exit_phase cfg px bals ps) = map (upd_highest px) (filter (stays cfg px) ps)"
  by (simp add: exit_phase_def foldl_exit_keep)

lemma settle_fst: "fst (settle cfg p ex_px) = ex_px * qty p * (1 - taker_fee_pct cfg)"
  by (simp add: settle_def Let_def algebra_simps)

lemma settle_snd:
  "snd (settle cfg p ex_px)
     = ex_px * qty p * (1 - taker_fee_pct cfg) - (entry_price p * qty p + entry_fee p)"
  by (simp add: settle_def Let_def algebra_simps)

lemma foldl_exit_nonneg:
  assumes "\<forall>s. 0 \<le> bals s" "\<forall>p \<in> set ps. 0 < qty p" "0 \<le> px" "taker_fee_pct cfg \<le> 1"
  shows "\<forall>s. 0 \<le> fst (foldl (exit_one cfg px) (bals, keep) ps) s"
  using assms
proof (induction ps arbitrary: bals keep)
  case Nil
  then show ?case by simp
next
  case (Cons p ps)
  obtain b k where bk: "exit_one cfg px (bals, keep) p = (b, k)" by (cases "exit_one cfg px (bals, keep) p")
  have "0 \<le> px * qty p * (1 - taker_fee_pct cfg)"
    using Cons.prems by simp
  then have "\<forall>s. 0 \<le> b s"
    using exit_one_bals [of cfg px bals keep p] bk Cons.prems(1)
    by (auto simp: settle_fst upd_highest_def)
  then show ?case using Cons.IH [of b k] Cons.prems bk by simp
qed

lemma exit_phase_nonneg:
  assumes "\<forall>s. 0 \<le> bals s" "\<forall>p \<in> set ps. 0 < qty p" "0 \<le> px" "taker_fee_pct cfg \<le> 1"
  shows "\<forall>s. 0 \<le> fst (exit_phase cfg px bals ps) s"
  unfolding exit_phase_def using foldl_exit_nonneg [OF assms] by simp

lemma exit_phase_qty:
  "\<forall>p \<in> set ps. 0 < qty p \<Longrightarrow> \<forall>p \<in> set (snd (exit_phase cfg px bals ps)). 0 < qty p"
  by (auto simp: exit_phase_keep upd_highest_def)

lemma exit_phase_distinct:
  "distinct (map strategy ps) \<Longrightarrow> distinct (map strategy (snd (exit_phase cfg px bals ps)))"
proof -
  assume d: "distinct (map strategy ps)"
  have "map strategy (snd (exit_phase cfg px bals ps)) = map strategy (filter (stays cfg px) ps)"
    by (simp add: exit_phase_keep upd_highest_def comp_def)
  then show ?thesis using d by (simp add: distinct_map_filter)
qed

lemma do_enter_Entered:
  assumes "do_enter cfg st px i s = Entered st'"
  shows "\<exists>p need. st' = st\<lparr>balances := (balances st)(s := balances st s - need),
                            open_positions := open_positions st @ [p],
                            last_entry_bar := (last_entry_bar st)(s \<mapsto> i),
                            trades_count := (trades_count st)(s := trades_count st s + 1)\<rparr>
           \<and> strategy p = s \<and> 0 < qty p \<and> entry_index p = i \<and> highest p = entry_price p
           \<and> entry_price p = px * (1 + slippage_pct cfg)
           \<and> need = entry_price p * qty p + entry_fee p
           \<and> entry_fee p = entry_price p * qty p * taker_fee_pct cfg
           \<and> need \<le> balances st s"
proof -
  define entry where "entry = px * (1 + slippage_pct cfg)"
  define need0 where
    "need0 = entry * (balances st s * per_trade_pct cfg / entry)
             + entry * (balances st s * per_trade_pct cfg / entry) * taker_fee_pct cfg"
  define q where
    "q = (if need0 > balances st s then balances st s / (entry * (1 + taker_fee_pct cfg))
          else balances st s * per_trade_pct cfg / entry)"
  define p where
    "p = \<lparr>strategy = s, entry_price = entry, qty = q, entry_index = i,
          tp_price = entry * (1 + take_profit_pct cfg),
          sl_price = entry * (1 - stop_loss_pct cfg),
          highest = entry, entry_fee = entry * q * taker_fee_pct cfg\<rparr>"
  define need where "need = entry * q + entry * q * taker_fee_pct cfg"
  define st1 where
    "st1 = st\<lparr>balances := (balances st)(s := balances st s - need),
               open_positions := open_positions st @ [p],
               last_entry_bar := (last_entry_bar st)(s \<mapsto> i),
               trades_count := (trades_count st)(s := trades_count st s + 1)\<rparr>"
  have unf: "do_enter cfg st px i s =
      (if balances st s * per_trade_pct cfg \<le> 0 then Refused
       else if entry = 0 then Raised ZeroDivisionError
       else if need0 > balances st s \<and> entry * (1 + taker_fee_pct cfg) = 0
            then Raised ZeroDivisionError
       else if q \<le> 0 \<or> need > balances st s then Refused
       else Entered st1)"
    unfolding do_enter_def Let_def entry_def need0_def q_def p_def need_def st1_def
    by (rule refl)
  from assms have ok: "\<not> (q \<le> 0 \<or> need > balances st s)" and st': "st' = st1"
    unfolding unf by (auto split: if_splits)
  have "strategy p = s" "qty p = q" "entry_index p = i" "highest p = entry_price p"
    "entry_price p = entry" "entry_fee p = entry * q * taker_fee_pct cfg"
    by (simp_all add: p_def)
  with ok st' show ?thesis
    unfolding st1_def entry_def [symmetric] need_def
    by (intro exI [of _ p] exI [of _ need]) (simp add: need_def entry_def)
qed

lemma try_enter_cases:
  "try_enter cfg st px i s sig = st
   \<or> (can_enter cfg st i s \<and> sig \<and> do_enter cfg st px i s = Entered (try_enter cfg st px i s sig))"
  by (auto simp: try_enter_def split: enter_result.splits)

lemma do_enter_inv:
  assumes "do_enter cfg st px i s = Entered st'" "bt_inv st"
  shows "bt_inv st'"
proof -
  from do_enter_Entered [OF assms(1)] obtain p need where
    st': "st' = st\<lparr>balances := (balances st)(s := balances st s - need),
                    open_positions := open_positions st @ [p],
                    last_entry_bar := (last_entry_bar st)(s \<mapsto> i),
                    trades_count := (trades_count st)(s := trades_count st s + 1)\<rparr>"
    and q: "0 < qty p" and need: "need \<le> balances st s"
    by blast
  show ?thesis using assms(2) q need unfolding st' bt_inv_def by auto
qed

lemma try_enter_inv: "bt_inv st \<Longrightarrow> bt_inv (try_enter cfg st px i s sig)"
  using try_enter_cases [of cfg st px i s sig] do_enter_inv by metis

lemma do_enter_distinct:
  assumes "do_enter cfg st px i s = Entered st'" "can_enter cfg st i s"
    "distinct (map strategy (open_positions st))"
  shows "distinct (map strategy (open_positions st'))"
proof -
  from do_enter_Entered [OF assms(1)] obtain p need where
    st': "st' = st\<lparr>balances := (balances st)(s := balances st s - need),
                    open_positions := open_positions st @ [p],
                    last_entry_bar := (last_entry_bar st)(s \<mapsto> i),
                    trades_count := (trades_count st)(s := trades_count st s + 1)\<rparr>"
    and sp: "strategy p = s"
    by blast
  from assms(2) have "s \<notin> strategy ` set (open_positions st)"
    by (auto simp: can_enter_def Let_def)
  then show ?thesis using assms(3) sp unfolding st' by simp
qed

lemma try_enter_distinct:
  "distinct (map strategy (open_positions st)) \<Longrightarrow>
   distinct (map strategy (open_positions (try_enter cfg st px i s sig)))"
  using try_enter_cases [of cfg st px i s sig] do_enter_distinct by metis

lemma bar_step_cases:
  "bar_step cfg df st i = after_exit cfg (bar_px df i) st
   \<or> bar_step cfg df st i =
       try_enter cfg
         (try_enter cfg (after_exit cfg (bar_px df i) st) (bar_px df i) (int i) Momentum
            (sig_momentum (take (i + 1) df) (entry_lookback_min cfg) (entry_change_pct cfg)))
         (bar_px df i) (int i) MA (sig_ma (take (i + 1) df) 9 21)"
  by (auto simp: bar_step_def after_exit_def bar_px_def Let_def split: prod.splits option.splits)

lemma after_exit_inv:
  "bt_inv st \<Longrightarrow> 0 \<le> px \<Longrightarrow> taker_fee_pct cfg \<le> 1 \<Longrightarrow> bt_inv (after_exit cfg px st)"
  using exit_phase_nonneg [of "balances st" "open_positions st" px cfg]
        exit_phase_qty [of "open_positions st" cfg px "balances st"]
  by (simp add: bt_inv_def after_exit_def Let_def)

lemma after_exit_distinct:
  "distinct (map strategy (open_positions st)) \<Longrightarrow>
   distinct (map strategy (open_positions (after_exit cfg px st)))"
  by (simp add: after_exit_def Let_def exit_phase_distinct)

lemma bar_step_inv:
  "bt_inv st \<Longrightarrow> 0 \<le> bar_px df i \<Longrightarrow> taker_fee_pct cfg \<le> 1 \<Longrightarrow> bt_inv (bar_step cfg df st i)"
  using bar_step_cases [of cfg df st i] after_exit_inv try_enter_inv by metis

lemma bar_step_distinct:
  "distinct (map strategy (open_positions st)) \<Longrightarrow>
   distinct (map strategy (open_positions (bar_step cfg df st i)))"
  using bar_step_cases [of cfg df st i] after_exit_distinct try_enter_distinct by metis

lemma run_bars_0: "run_bars cfg df 0 = init_bt cfg"
  by (simp add: run_bars_def)

lemma run_bars_Suc: "run_bars cfg df (Suc k) = bar_step cfg df (run_bars cfg df k) k"
  by (simp add: run_bars_def)

lemma bar_px_nonneg:
  assumes "\<forall>b \<in> set df. 0 \<le> close b" "df \<noteq> []"
  shows "0 \<le> bar_px df i"
proof -
  have ne: "take (i + 1) df \<noteq> []" using assms(2) by simp
  have "last (take (i + 1) df) \<in> set (take (i + 1) df)" using ne by (rule last_in_set)
  then have "last (take (i + 1) df) \<in> set df" by (rule in_set_takeD)
  then show ?thesis using assms(1) by (simp add: bar_px_def)
qed

lemma run_bars_distinct: "distinct (map strategy (open_positions (run_bars cfg df k)))"
  by (induction k) (simp_all add: run_bars_0 run_bars_Suc init_bt_def bar_step_distinct)

lemma run_bars_inv:
  assumes "\<forall>s. 0 \<le> initial_balance cfg * strategy_weights cfg s"
    "\<forall>b \<in> set df. 0 \<le> close b" "taker_fee_pct cfg \<le> 1" "k \<le> length df"
  shows "bt_inv (run_bars cfg df k)"
  using assms(4)
proof (induction k)
  case 0
  then show ?case using assms(1) by (simp add: run_bars_0 init_bt_def bt_inv_def)
next
  case (Suc k)
  then have "df \<noteq> []" by auto
  then have "0 \<le> bar_px df k" using bar_px_nonneg assms(2) by blast
  then show ?case using Suc assms(3) by (simp add: run_bars_Suc bar_step_inv)
qed

section \<open>Balances\<close>

text \<open>
  \<open>update_balance\<close> adds a signed pnl with no floor: a loss larger than the balance
  leaves the balance negative.
\<close>

theorem update_balance_goes_negative:
  "state_balances (update_balance 1000 pf_one (- 1500) ''momentum'') ''momentum'' = Some (- 500)
   \<and> get_balance (update_balance 1000 pf_one (- 1500) ''momentum'') ''momentum'' < 0"
  by (simp add: update_balance_def pf_one_def get_balance_def)

text \<open>
  C3 (as amended). In the backtest, when the starting balances are not negative, no bar
  closes below zero and the taker fee is at most 1, every strategy's balance is at least
  zero after every bar; and an entry either leaves the state unchanged (the guards of
  \<open>can_enter\<close> and \<open>do_enter\<close>, among them the refusal of a debit above the balance) or
  debits an amount that is at most the strategy's balance.
\<close>

theorem backtest_balances_nonneg:
  assumes "\<forall>s. 0 \<le> initial_balance cfg * strategy_weights cfg s"
    and "\<forall>b \<in> set df. 0 \<le> close b"
    and "taker_fee_pct cfg \<le> 1"
  shows "(\<forall>k \<le> length df. \<forall>s. 0 \<le> balances (run_bars cfg df k) s)
    \<and> (try_enter cfg st px i s sig = st
        \<or> (\<exists>need. need \<le> balances st s
             \<and> balances (try_enter cfg st px i s sig)
                 = (balances st)(s := balances st s - need)))"
proof
  show "\<forall>k \<le> length df. \<forall>s. 0 \<le> balances (run_bars cfg df k) s"
    using run_bars_inv [OF assms] by (simp add: bt_inv_def)
next
  from try_enter_cases [of cfg st px i s sig]
  show "try_enter cfg st px i s sig = st
        \<or> (\<exists>need. need \<le> balances st s
             \<and> balances (try_enter cfg st px i s sig)
                 = (balances st)(s := balances st s - need))"
  proof
    assume "try_enter cfg st px i s sig = st"
    then show ?thesis by simp
  next
    assume "can_enter cfg st i s \<and> sig
            \<and> do_enter cfg st px i s = Entered (try_enter cfg st px i s sig)"
    then have "do_enter cfg st px i s = Entered (try_enter cfg st px i s sig)" by simp
    from do_enter_Entered [OF this] obtain p need where
      "try_enter cfg st px i s sig
         = st\<lparr>balances := (balances st)(s := balances st s - need),
               open_positions := open_positions st @ [p],
               last_entry_bar := (last_entry_bar st)(s \<mapsto> i),
               trades_count := (trades_count st)(s := trades_count st s + 1)\<rparr>"
      and "need \<le> balances st s" by blast
    then have "need \<le> balances st s
       \<and> balances (try_enter cfg st px i s sig) = (balances st)(s := balances st s - need)"
      by simp
    then show ?thesis by blast
  qed
qed

theorem backtest_balances_nonneg_witness:
  "taker_fee_pct bt_cfg_default \<le> 1
   \<and> (\<forall>s. 0 \<le> initial_balance bt_cfg_default * strategy_weights bt_cfg_default s)
   \<and> (\<forall>s. 0 \<le> balances (run_bars bt_cfg_default bars16 16) s)"
proof -
  have h1: "\<forall>s. 0 \<le> initial_balance bt_cfg_default * strategy_weights bt_cfg_default s"
    by (simp add: bt_cfg_default_def strategy_weights_def split: strat.splits)
  have h2: "\<forall>b \<in> set bars16. 0 \<le> close b"
    by (simp add: bars16_def mk_bar_def)
  have h3: "taker_fee_pct bt_cfg_default \<le> 1"
    by (simp add: bt_cfg_default_def)
  have len: "16 \<le> length bars16"
    by (simp add: bars16_def)
  from backtest_balances_nonneg [OF h1 h2 h3] len h1 h3 show ?thesis by blast
qed

section \<open>Exits\<close>




text \<open>
  C5. A close by TP, SL or TRAIL at the price \<open>p\<close> credits \<open>p * (1 - slippage_pct) * qty\<close>
  less the taker fee. The backtest exit loop settles at \<open>p\<close> itself: the position of one
  unit closed at 105 is credited \<open>105 * (1 - fee)\<close>, while the forced exit of the same
  position at 105 applies the slippage. The live exit manager computes
  \<open>(price - entry) * qty\<close> with neither, and after the market sell its close call
  raises.
\<close>

theorem exit_credit_has_no_slippage:
  "fst (exit_phase bt_cfg_default 105 (\<lambda>s. 0) [bt_pos_100]) Momentum = 105 * (1 - 4 / 10000)
   \<and> snd (exit_phase bt_cfg_default 105 (\<lambda>s. 0) [bt_pos_100]) = []
   \<and> 105 * (1 - 4 / 10000) \<noteq> 105 * (1 - slippage_pct bt_cfg_default) * (1 - 4 / (10000::real))
   \<and> force_exit bt_cfg_default 105 (\<lambda>s. 0) [bt_pos_100] Momentum
       = 105 * (1 - 5 / 10000) * (1 - 4 / 10000)
   \<and> manage_pnl live_pos 108 = 8
   \<and> exit_close_position paper_sell pf_one live_pos = ([Sell ''BTCUSDT'' 1], TypeError)"
  by (simp add: exit_phase_def exit_one_def exit_reason_def settle_def force_exit_def
      bt_cfg_default_def bt_pos_100_def manage_pnl_def live_pos_def exit_close_position_def
      paper_sell_def Let_def)

section \<open>Cooldown\<close>

text \<open>
  The live scan keeps no record of the last entry: two successive scans with a qualifying
  momentum signal both send a market buy for the same symbol and strategy.
\<close>

theorem live_scan_has_no_cooldown:
  "scan_ticks risk_cfg_dd pf_cash (Some no_step) paper_buy [] ''BTCUSDT''
     [(100, True, False, True, True), (100, True, False, True, True)]
   = [([Buy ''BTCUSDT'' ''momentum'' 1], Some AttributeError),
      ([Buy ''BTCUSDT'' ''momentum'' 1], Some AttributeError)]"
  by (simp add: scan_ticks_def scan_symbol_def entry_block_def has_open_def
      compute_sl_tp_prices_def compute_position_size_by_risk_def get_balance_def pf_cash_def
      risk_cfg_dd_def min_inf_def round_qty_def no_step_def paper_buy_def Let_def)

lemma try_enter_blocked:
  "last_entry_bar st s = Some l \<Longrightarrow> i - l < entry_cooldown_bars cfg \<Longrightarrow>
   try_enter cfg st px i s sig = st"
  by (simp add: try_enter_def can_enter_def)

lemma try_enter_other:
  assumes "t \<noteq> s"
  shows "last_entry_bar (try_enter cfg st px i s sig) t = last_entry_bar st t
    \<and> trades_count (try_enter cfg st px i s sig) t = trades_count st t
    \<and> filter (\<lambda>p. strategy p = t) (open_positions (try_enter cfg st px i s sig))
        = filter (\<lambda>p. strategy p = t) (open_positions st)"
proof -
  from try_enter_cases [of cfg st px i s sig] show ?thesis
  proof
    assume "try_enter cfg st px i s sig = st"
    then show ?thesis by simp
  next
    assume "can_enter cfg st i s \<and> sig
            \<and> do_enter cfg st px i s = Entered (try_enter cfg st px i s sig)"
    then have "do_enter cfg st px i s = Entered (try_enter cfg st px i s sig)" by simp
    from do_enter_Entered [OF this] obtain p need where
      eq: "try_enter cfg st px i s sig
         = st\<lparr>balances := (balances st)(s := balances st s - need),
               open_positions := open_positions st @ [p],
               last_entry_bar := (last_entry_bar st)(s \<mapsto> i),
               trades_count := (trades_count st)(s := trades_count st s + 1)\<rparr>"
      and sp: "strategy p = s" by blast
    show ?thesis unfolding eq using assms sp by simp
  qed
qed

lemma after_exit_frame:
  "last_entry_bar (after_exit cfg px st) = last_entry_bar st
   \<and> trades_count (after_exit cfg px st) = trades_count st
   \<and> set (open_positions (after_exit cfg px st)) \<subseteq> upd_highest px ` set (open_positions st)"
  by (auto simp: after_exit_def Let_def exit_phase_keep)

text \<open>
  C6 (as amended). In the backtest, a bar whose index is less than \<open>entry_cooldown_bars\<close>
  after the last entry of a strategy opens nothing for that strategy, whether or not the
  earlier position is still open: the last entry bar and the trade count are unchanged
  and every position of the strategy after the bar was open before it. With a cooldown
  of 10 and an entry at bar 10, bar 15 cannot enter, and bar 20 can enter exactly when no
  position of the strategy is open.
\<close>

theorem cooldown_blocks_entry:
  assumes "last_entry_bar st s = Some l" and "int i - l < entry_cooldown_bars cfg"
  shows "last_entry_bar (bar_step cfg df st i) s = Some l
    \<and> trades_count (bar_step cfg df st i) s = trades_count st s
    \<and> (\<forall>p \<in> set (open_positions (bar_step cfg df st i)).
          strategy p = s \<longrightarrow> p \<in> upd_highest (bar_px df i) ` set (open_positions st))
    \<and> (entry_cooldown_bars cfg = 10 \<and> last_entry_bar st' s = Some 10 \<longrightarrow>
          \<not> can_enter cfg st' 15 s
          \<and> can_enter cfg st' 20 s = (\<not> (\<exists>p \<in> set (open_positions st'). strategy p = s)))"
proof -
  define ae where "ae = after_exit cfg (bar_px df i) st"
  define P where "P = (\<lambda>st'::bt_state. last_entry_bar st' s = Some l
    \<and> trades_count st' s = trades_count st s
    \<and> (\<forall>p \<in> set (open_positions st'). strategy p = s \<longrightarrow>
          p \<in> upd_highest (bar_px df i) ` set (open_positions st)))"
  have Pae: "P ae"
    using after_exit_frame [of cfg "bar_px df i" st] assms(1) by (auto simp: P_def ae_def)
  have step: "P (try_enter cfg x px (int i) t sg)" if "P x" for x px t sg
  proof (cases "t = s")
    case True
    from that have "last_entry_bar x s = Some l" by (simp add: P_def)
    then have "try_enter cfg x px (int i) t sg = x"
      using try_enter_blocked [of x s l "int i" cfg px sg] assms(2) True by simp
    then show ?thesis using that by simp
  next
    case False
    then have ne: "s \<noteq> t" by simp
    from try_enter_other [OF ne, of cfg x px "int i" sg]
    have *: "last_entry_bar (try_enter cfg x px (int i) t sg) s = last_entry_bar x s"
      "trades_count (try_enter cfg x px (int i) t sg) s = trades_count x s"
      "filter (\<lambda>p. strategy p = s) (open_positions (try_enter cfg x px (int i) t sg))
        = filter (\<lambda>p. strategy p = s) (open_positions x)"
      by simp_all
    have "set (filter (\<lambda>p. strategy p = s) (open_positions (try_enter cfg x px (int i) t sg)))
        = set (filter (\<lambda>p. strategy p = s) (open_positions x))"
      using *(3) by simp
    then have "\<forall>p \<in> set (open_positions (try_enter cfg x px (int i) t sg)).
        strategy p = s \<longrightarrow> p \<in> set (open_positions x)"
      by auto
    then show ?thesis using that * by (auto simp: P_def)
  qed
  have "P (bar_step cfg df st i)"
    using bar_step_cases [of cfg df st i] Pae step unfolding ae_def by metis
  moreover have "entry_cooldown_bars cfg = 10 \<and> last_entry_bar st' s = Some 10 \<longrightarrow>
          \<not> can_enter cfg st' 15 s
          \<and> can_enter cfg st' 20 s = (\<not> (\<exists>p \<in> set (open_positions st'). strategy p = s))"
    by (simp add: can_enter_def)
  ultimately show ?thesis by (simp add: P_def)
qed

theorem cooldown_blocks_entry_witness:
  "last_entry_bar (run_bars bt_cfg_default bars16 15) Momentum = Some 14
   \<and> sig_momentum (take 16 bars16) 1 3
   \<and> open_positions (run_bars bt_cfg_default bars16 16) = []
   \<and> last_entry_bar (run_bars bt_cfg_default bars16 16) Momentum = Some 14
   \<and> trades_count (run_bars bt_cfg_default bars16 16) Momentum
       = trades_count (run_bars bt_cfg_default bars16 15) Momentum"
proof -
  have h1: "last_entry_bar (run_bars bt_cfg_default bars16 15) Momentum = Some 14"
    by code_simp
  have h2: "int 15 - 14 < entry_cooldown_bars bt_cfg_default"
    by (simp add: bt_cfg_default_def)
  have r: "run_bars bt_cfg_default bars16 16
           = bar_step bt_cfg_default bars16 (run_bars bt_cfg_default bars16 15) 15"
    using run_bars_Suc [of bt_cfg_default bars16 15] by simp
  have sg: "sig_momentum (take 16 bars16) 1 3"
    by code_simp
  have op: "open_positions (run_bars bt_cfg_default bars16 16) = []"
    by code_simp
  from cooldown_blocks_entry [OF h1 h2, of bars16] h1 sg op show ?thesis
    unfolding r by simp
qed

section \<open>One open position for a symbol and strategy\<close>

lemma live_poll_store: "fst (live_poll cfg rounder buy pids symb (pf, sent) ob) = pf"
  by (simp add: live_poll_def Let_def split: prod.splits)

lemma try_enter_open:
  "\<exists>p \<in> set (open_positions st). strategy p = s \<Longrightarrow> try_enter cfg st px i s sig = st"
  by (simp add: try_enter_def can_enter_def)

text \<open>
  C7. In either driver there is at most one open position for a symbol and strategy
  after every tick: the entry phase skips a pair that has an open position, so a second
  open for the pair is impossible while the first is open. The backtest keeps this (the
  open positions of a run have pairwise different strategies, \<open>run_bars_distinct\<close>, and
  \<open>try_enter_open\<close>). The live driver does not: its scan skips a pair that the store
  holds open, but the store never learns of a fill, since the call that is to record it
  raises; from a store with 1000 in the momentum account and no position, two polls with
  a qualifying momentum signal buy BTCUSDT for the momentum strategy twice, and the
  store still lists no open position after them.
\<close>

theorem live_rebuys_open_pair:
  "foldl (live_poll risk_cfg_dd (Some no_step) paper_buy [] ''BTCUSDT'') (pf_cash, [])
     [(100, True, False, True, True), (100, True, False, True, True)]
   = (pf_cash, [Buy ''BTCUSDT'' ''momentum'' 1, Buy ''BTCUSDT'' ''momentum'' 1])
   \<and> dom (state_positions pf_cash) = set []
   \<and> open_values pf_cash [] = []"
  by (simp add: live_poll_def open_values_def scan_symbol_def entry_block_def has_open_def
      compute_sl_tp_prices_def compute_position_size_by_risk_def get_balance_def pf_cash_def
      risk_cfg_dd_def min_inf_def round_qty_def no_step_def paper_buy_def
      List.map_filter_simps Let_def)

section \<open>The forced exit\<close>

lemma force_exit_credit:
  "force_exit cfg last_px bals ps s
     = bals s + (\<Sum>p\<leftarrow>filter (\<lambda>p. strategy p = s) ps.
                   last_px * (1 - slippage_pct cfg) * qty p * (1 - taker_fee_pct cfg))"
  unfolding force_exit_def
  by (induction ps arbitrary: bals) (simp_all add: Let_def settle_fst)

text \<open>
  C8. A run over at least one bar returns its summary after settling every position
  that the last bar left open, with no TP, SL or TRAIL check: each is sold at the final
  close less the slippage, and the proceeds less the taker fee go to its strategy's
  balance, so the final balance is the cash after the last bar plus these credits and
  holds no open position.
\<close>

theorem backtest_ends_flat:
  assumes "df \<noteq> []"
  shows "\<exists>res eq. run_backtest cfg df = Some (res, eq)
    \<and> final_balance res
        = (\<Sum>s\<leftarrow>[Momentum, MA].
             balances (run_bars cfg df (length df)) s
             + (\<Sum>p\<leftarrow>filter (\<lambda>p. strategy p = s) (open_positions (run_bars cfg df (length df))).
                  close (last df) * (1 - slippage_pct cfg) * qty p * (1 - taker_fee_pct cfg)))
    \<and> total_pnl res = final_balance res - initial_balance cfg"
  using assms by (simp add: run_backtest_def Let_def force_exit_credit)

theorem backtest_ends_flat_witness:
  "bars15 \<noteq> []
   \<and> map strategy (open_positions (run_bars bt_cfg_default bars15 (length bars15))) = [Momentum]
   \<and> (\<exists>res eq. run_backtest bt_cfg_default bars15 = Some (res, eq)
        \<and> final_balance res = 666940 / 667)"
proof -
  have ne: "bars15 \<noteq> []" by (simp add: bars15_def)
  have op: "map strategy (open_positions (run_bars bt_cfg_default bars15 (length bars15)))
            = [Momentum]"
    by code_simp
  have v: "(\<Sum>s\<leftarrow>[Momentum, MA].
             balances (run_bars bt_cfg_default bars15 (length bars15)) s
             + (\<Sum>p\<leftarrow>filter (\<lambda>p. strategy p = s)
                        (open_positions (run_bars bt_cfg_default bars15 (length bars15))).
                  close (last bars15) * (1 - slippage_pct bt_cfg_default) * qty p
                  * (1 - taker_fee_pct bt_cfg_default))) = 666940 / 667"
    by code_simp
  from backtest_ends_flat [OF ne, of bt_cfg_default] obtain res eq where
    "run_backtest bt_cfg_default bars15 = Some (res, eq)"
    and "final_balance res
        = (\<Sum>s\<leftarrow>[Momentum, MA].
             balances (run_bars bt_cfg_default bars15 (length bars15)) s
             + (\<Sum>p\<leftarrow>filter (\<lambda>p. strategy p = s)
                        (open_positions (run_bars bt_cfg_default bars15 (length bars15))).
                  close (last bars15) * (1 - slippage_pct bt_cfg_default) * qty p
                  * (1 - taker_fee_pct bt_cfg_default)))"
    by blast
  then have "run_backtest bt_cfg_default bars15 = Some (res, eq)
        \<and> final_balance res = 666940 / 667"
    using v by simp
  then show ?thesis using ne op by blast
qed

end
